theory Spec2Isabelle
  imports Main "HOL-Library.Sublist" "HOL-Library.AList"
begin

section \<open>Python values and the pieces of the language the handlers use\<close>

text \<open>
  The handlers of \<^verbatim>\<open>backend/flaskr/__init__.py\<close> read parsed JSON bodies and build
  dictionaries that \<^verbatim>\<open>jsonify\<close> sends back. Both are Python values; \<open>py\<close> is the
  fragment that occurs: \<open>None\<close>, booleans, integers (unbounded), strings, lists and
  dictionaries (as association lists in insertion order, looked up from the front).
  Floating point numbers are left out.
\<close>

datatype py =
    PNone
  | PBool bool
  | PInt int
  | PStr string
  | PList "py list"
  | PDict "(py \<times> py) list"

text \<open>
  Exceptions are values. \<open>Abort c\<close> is the \<^verbatim>\<open>HTTPException\<close> that \<^verbatim>\<open>abort(c)\<close>
  raises; the others are the Python and storage exceptions the handlers can meet.
\<close>

datatype exn =
    Abort nat
  | AttributeError
  | KeyError
  | TypeError
  | MultipleResultsFound
  | StorageError

definition abort :: "nat \<Rightarrow> exn + 'a" where
  "abort code = Inl (Abort code)"

definition and_then :: "exn + 'a \<Rightarrow> ('a \<Rightarrow> exn + 'b) \<Rightarrow> exn + 'b" where
  "and_then m f = (case m of Inl e \<Rightarrow> Inl e | Inr x \<Rightarrow> f x)"

text \<open>\<^verbatim>\<open>d.get(key, default)\<close> on a dictionary.\<close>

definition dict_get :: "(py \<times> py) list \<Rightarrow> py \<Rightarrow> py \<Rightarrow> py" where
  "dict_get d key dflt = (case map_of d key of None \<Rightarrow> dflt | Some v \<Rightarrow> v)"

text \<open>
  \<^verbatim>\<open>body.get(key, default)\<close> on whatever \<^verbatim>\<open>request.get_json()\<close> returned: only a
  dictionary has the method, every other value raises \<^verbatim>\<open>AttributeError\<close>.
\<close>

definition py_get :: "py \<Rightarrow> string \<Rightarrow> py \<Rightarrow> exn + py" where
  "py_get body key dflt =
     (case body of PDict d \<Rightarrow> Inr (dict_get d (PStr key) dflt) | _ \<Rightarrow> Inl AttributeError)"

text \<open>\<^verbatim>\<open>value[key]\<close> with a string key: \<^verbatim>\<open>KeyError\<close> on a dictionary without it,
  \<^verbatim>\<open>TypeError\<close> on every other value of the fragment.\<close>

definition py_getitem :: "py \<Rightarrow> string \<Rightarrow> exn + py" where
  "py_getitem v key =
     (case v of
        PDict d \<Rightarrow> (case map_of d (PStr key) of None \<Rightarrow> Inl KeyError | Some x \<Rightarrow> Inr x)
      | _ \<Rightarrow> Inl TypeError)"

text \<open>Truth value of a Python value, as \<^verbatim>\<open>if search:\<close> tests it.\<close>

fun truthy :: "py \<Rightarrow> bool" where
  "truthy PNone = False"
| "truthy (PBool b) = b"
| "truthy (PInt n) = (n \<noteq> 0)"
| "truthy (PStr s) = (s \<noteq> [])"
| "truthy (PList xs) = (xs \<noteq> [])"
| "truthy (PDict d) = (d \<noteq> [])"

text \<open>\<^verbatim>\<open>v == 0\<close>: true for the integer zero and for \<^verbatim>\<open>False\<close>.\<close>

fun eq_zero :: "py \<Rightarrow> bool" where
  "eq_zero (PInt n) = (n = 0)"
| "eq_zero (PBool b) = (\<not> b)"
| "eq_zero _ = False"

text \<open>\<^verbatim>\<open>len(v)\<close>: defined on strings, lists and dictionaries, \<^verbatim>\<open>TypeError\<close> otherwise.\<close>

fun py_len :: "py \<Rightarrow> exn + nat" where
  "py_len (PStr s) = Inr (length s)"
| "py_len (PList xs) = Inr (length xs)"
| "py_len (PDict d) = Inr (length d)"
| "py_len _ = Inl TypeError"

text \<open>
  The slice \<^verbatim>\<open>xs[start:end]\<close> of a list: a negative bound counts from the end, and
  both bounds are clamped to \<open>0 .. len(xs)\<close>; an end at or before the start gives \<open>[]\<close>.
\<close>

definition slice_bound :: "nat \<Rightarrow> int \<Rightarrow> nat" where
  "slice_bound n i = (if i < 0 then nat (max (i + int n) 0) else min (nat i) n)"

definition py_slice :: "'a list \<Rightarrow> int \<Rightarrow> int \<Rightarrow> 'a list" where
  "py_slice xs start end' =
     (let s = slice_bound (length xs) start;
          e = slice_bound (length xs) end'
      in take (e - s) (drop s xs))"

text \<open>\<^verbatim>\<open>ceil(n / 10)\<close> for a list length \<open>n\<close> (exact in floating point for every
  length below \<open>2^53\<close>).\<close>

definition ceil_div10 :: "nat \<Rightarrow> int" where
  "ceil_div10 n = int ((n + 9) div 10)"

subsection \<open>Reading an integer from text\<close>

text \<open>
  A decimal integer in a string of ASCII characters: optional surrounding white space
  (tab, line feed, vertical tab, form feed, carriage return, space), an optional sign,
  then decimal digits, where single underscores may stand between digits. \<open>None\<close> means
  that the string is no such numeral.
\<close>

definition is_space :: "char \<Rightarrow> bool" where
  "is_space c = (of_char c \<in> {9, 10, 11, 12, 13, 32 :: nat})"

definition digit_of :: "char \<Rightarrow> nat option" where
  "digit_of c =
     (let k = (of_char c :: nat) in if 48 \<le> k \<and> k \<le> 57 then Some (k - 48) else None)"

fun parse_digits :: "nat \<Rightarrow> string \<Rightarrow> nat option" where
  "parse_digits acc [] = Some acc"
| "parse_digits acc (c # cs) =
     (if c = CHR ''_'' then
        (case cs of
           [] \<Rightarrow> None
         | d # ds \<Rightarrow> (case digit_of d of None \<Rightarrow> None
                      | Some v \<Rightarrow> parse_digits (10 * acc + v) ds))
      else
        (case digit_of c of None \<Rightarrow> None | Some v \<Rightarrow> parse_digits (10 * acc + v) cs))"

definition strip :: "string \<Rightarrow> string" where
  "strip s = rev (dropWhile is_space (rev (dropWhile is_space s)))"

definition parse_unsigned :: "string \<Rightarrow> nat option" where
  "parse_unsigned s =
     (case s of
        [] \<Rightarrow> None
      | d # ds \<Rightarrow> (case digit_of d of None \<Rightarrow> None | Some v \<Rightarrow> parse_digits v ds))"

definition read_int :: "string \<Rightarrow> int option" where
  "read_int s =
     (case strip s of
        [] \<Rightarrow> None
      | c # cs \<Rightarrow>
          if c = CHR ''-'' then map_option (\<lambda>n. - int n) (parse_unsigned cs)
          else if c = CHR ''+'' then map_option int (parse_unsigned cs)
          else map_option int (parse_unsigned (c # cs)))"

text \<open>
  \<^verbatim>\<open>int(s)\<close>: the numeral read as above; \<open>None\<close> is \<^verbatim>\<open>ValueError\<close>. Interpreters
  since 3.11 (and the later releases of 3.7 to 3.10) also raise \<^verbatim>\<open>ValueError\<close> for a
  string with more than 4300 digits, and so does the model.
\<close>

definition max_str_digits :: nat where
  "max_str_digits = 4300"

definition py_int :: "string \<Rightarrow> int option" where
  "py_int s =
     (if max_str_digits < length (filter (\<lambda>c. digit_of c \<noteq> None) s) then None
      else read_int s)"

text \<open>The decimal numeral of a natural number and of an integer, without leading zeros.\<close>

fun decimal_numeral :: "nat \<Rightarrow> string" where
  "decimal_numeral n =
     (if n < 10 then [char_of (48 + n)]
      else decimal_numeral (n div 10) @ [char_of (48 + n mod 10)])"

declare decimal_numeral.simps [simp del]

definition int_numeral :: "int \<Rightarrow> string" where
  "int_numeral i =
     (if i < 0 then CHR ''-'' # decimal_numeral (nat (- i)) else decimal_numeral (nat i))"

section \<open>The request and the pagination helper\<close>

text \<open>
  Of a request the handlers read the query string (\<^verbatim>\<open>request.args\<close>, pairs of name and
  raw text) and the parsed JSON body (\<^verbatim>\<open>request.get_json()\<close>, \<open>PNone\<close> when there is
  none).
\<close>

record request =
  args :: "(string \<times> string) list"
  get_json :: py

text \<open>
  \<^verbatim>\<open>request.args.get(key, default, type=conv)\<close>: the default when the key is missing
  or when the conversion raises \<^verbatim>\<open>ValueError\<close>, the converted first value otherwise.
\<close>

definition args_get :: "(string \<times> string) list \<Rightarrow> string \<Rightarrow> 'a \<Rightarrow> (string \<Rightarrow> 'a option) \<Rightarrow> 'a" where
  "args_get a key dflt conv =
     (case map_of a key of
        None \<Rightarrow> dflt
      | Some raw \<Rightarrow> (case conv raw of None \<Rightarrow> dflt | Some v \<Rightarrow> v))"

definition QUESTIONS_PER_PAGE :: int where
  "QUESTIONS_PER_PAGE = 10"

section \<open>Storage\<close>

text \<open>
  Modelled from the spec: \<^verbatim>\<open>models.py\<close> (the classes \<^verbatim>\<open>Question\<close> and
  \<^verbatim>\<open>Category\<close> with \<^verbatim>\<open>format\<close>, \<^verbatim>\<open>insert\<close>, \<^verbatim>\<open>delete\<close> and the query
  interface) is not among the sources. A question has an id assigned by storage, a
  question text, an answer, a category reference and an integer difficulty; a category
  has an id and a type label. The test suite compares a returned category with the
  integer \<open>6\<close>, so the category reference is an integer here.
\<close>

record question =
  q_id :: int
  q_question :: string
  q_answer :: string
  q_category :: int
  q_difficulty :: int

record category =
  c_id :: int
  c_type :: string

text \<open>
  Modelled from the spec: the stored rows in storage order and the next id that storage
  hands out. The spec does not say what storage makes of a list that is handed to it
  where text is meant; \<open>array_text\<close> is the answer of the storage at hand (the text it
  stores, or the exception it raises).
\<close>

record database =
  question_rows :: "question list"
  category_rows :: "category list"
  next_id :: int
  array_text :: "py list \<Rightarrow> exn + string"

text \<open>
  Modelled from the spec: a question serialises as
  \<^verbatim>\<open>{id, question, answer, category, difficulty}\<close>.
\<close>

definition format_question :: "question \<Rightarrow> py" where
  "format_question q =
     PDict [(PStr ''id'', PInt (q_id q)),
            (PStr ''question'', PStr (q_question q)),
            (PStr ''answer'', PStr (q_answer q)),
            (PStr ''category'', PInt (q_category q)),
            (PStr ''difficulty'', PInt (q_difficulty q))]"

text \<open>
  Modelled from the spec: the ids, the category reference and the difficulty are integer
  columns, the question and the answer are text columns. The spec says no more about the
  values the handlers pass on unchecked; what follows is what the database of the test
  suite (PostgreSQL, \<^verbatim>\<open>postgres://\<close> in \<^verbatim>\<open>test_flaskr.py\<close>) does with them, its
  integer columns having 32 bits.

  \<open>sql_int\<close> is the integer that a request value other than \<open>None\<close> stands for when
  the database compares it with an integer column: an integer stands for itself, a string
  for the 32-bit decimal integer it holds (the tests send the category as \<^verbatim>\<open>'1'\<close> and
  \<^verbatim>\<open>'6'\<close>; no underscores here), and the database raises on every other value and on a
  string that holds no such integer. \<open>None\<close> is not compared but tested with
  \<^verbatim>\<open>IS NULL\<close>; the handlers below treat it where it can occur.
\<close>

definition in_int32 :: "int \<Rightarrow> bool" where
  "in_int32 n = (- 2147483648 \<le> n \<and> n \<le> 2147483647)"

definition sql_int :: "py \<Rightarrow> exn + int" where
  "sql_int v =
     (case v of
        PInt n \<Rightarrow> Inr n
      | PStr s \<Rightarrow>
          (if CHR ''_'' \<in> set s then Inl StorageError
           else (case read_int s of
                   None \<Rightarrow> Inl StorageError
                 | Some n \<Rightarrow> if in_int32 n then Inr n else Inl StorageError))
      | _ \<Rightarrow> Inl StorageError)"

text \<open>
  A value stored into an integer column must also fit the column. A value stored into a
  text column is stored as it is when it is a string; a number is stored as its decimal
  numeral and a boolean as \<open>true\<close> or \<open>false\<close>; a list is left to \<open>array_text\<close>; a
  dictionary cannot be handed to the database. The handler never stores \<open>None\<close> (it
  has aborted before), and the records here have no null fields.
\<close>

definition sql_column_int :: "py \<Rightarrow> exn + int" where
  "sql_column_int v =
     and_then (sql_int v) (\<lambda>n. if in_int32 n then Inr n else Inl StorageError)"

definition sql_text :: "(py list \<Rightarrow> exn + string) \<Rightarrow> py \<Rightarrow> exn + string" where
  "sql_text of_list v =
     (case v of
        PStr s \<Rightarrow> Inr s
      | PInt n \<Rightarrow> Inr (int_numeral n)
      | PBool b \<Rightarrow> Inr (if b then ''true'' else ''false'')
      | PList xs \<Rightarrow> of_list xs
      | _ \<Rightarrow> Inl StorageError)"

fun sql_ints :: "py list \<Rightarrow> exn + int list" where
  "sql_ints [] = Inr []"
| "sql_ints (v # vs) =
     and_then (sql_int v) (\<lambda>n. and_then (sql_ints vs) (\<lambda>ns. Inr (n # ns)))"

text \<open>Modelled from the spec: \<^verbatim>\<open>query.order_by(X.id).all()\<close> and \<^verbatim>\<open>one_or_none()\<close>.\<close>

definition order_by_id :: "question list \<Rightarrow> question list" where
  "order_by_id rows = sort_key q_id rows"

definition one_or_none :: "'a list \<Rightarrow> exn + 'a option" where
  "one_or_none rows =
     (case rows of [] \<Rightarrow> Inr None | [r] \<Rightarrow> Inr (Some r) | _ \<Rightarrow> Inl MultipleResultsFound)"

text \<open>
  Modelled from the spec: \<^verbatim>\<open>Question(...).insert()\<close> stores the record under a newly
  assigned id, \<^verbatim>\<open>question.delete()\<close> removes the record with that id.
\<close>

definition question_insert :: "py \<Rightarrow> py \<Rightarrow> py \<Rightarrow> py \<Rightarrow> database \<Rightarrow> exn + (question \<times> database)" where
  "question_insert new_question new_answer new_category new_difficulty db =
     and_then (sql_text (array_text db) new_question) (\<lambda>qu.
     and_then (sql_text (array_text db) new_answer) (\<lambda>an.
     and_then (sql_column_int new_category) (\<lambda>ca.
     and_then (sql_column_int new_difficulty) (\<lambda>di.
       let q = \<lparr>q_id = next_id db, q_question = qu, q_answer = an,
                q_category = ca, q_difficulty = di\<rparr>
       in Inr (q, db\<lparr>question_rows := question_rows db @ [q],
                      next_id := next_id db + 1\<rparr>)))))"

definition question_delete :: "question \<Rightarrow> database \<Rightarrow> database" where
  "question_delete q db = db\<lparr>question_rows := filter (\<lambda>r. q_id r \<noteq> q_id q) (question_rows db)\<rparr>"

subsection \<open>Pattern matching of the storage\<close>

text \<open>
  \<^verbatim>\<open>column.ilike(pattern)\<close> hands the pattern, unchanged, to the SQL operator
  \<^verbatim>\<open>ILIKE\<close> of the database: in the pattern \<open>%\<close> stands for any run of characters
  (the handler relies on this when it writes \<^verbatim>\<open>'%{}%'\<close>), \<open>_\<close> for any one
  character, a backslash makes the next character literal, every other character stands
  for itself; letters match without regard to case (ASCII letters here). A pattern that
  ends in a lone backslash is matched by nothing; the patterns built by the handlers end
  in \<open>%\<close>.
\<close>

definition lower :: "char \<Rightarrow> char" where
  "lower c =
     (let k = (of_char c :: nat) in if 65 \<le> k \<and> k \<le> 90 then char_of (k + 32) else c)"

fun like_match :: "string \<Rightarrow> string \<Rightarrow> bool" where
  "like_match [] t = (t = [])"
| "like_match (p # ps) t =
     (if p = CHR ''%'' then
        (like_match ps t \<or> (case t of [] \<Rightarrow> False | c # cs \<Rightarrow> like_match (p # ps) cs))
      else if p = CHR ''_'' then
        (case t of [] \<Rightarrow> False | c # cs \<Rightarrow> like_match ps cs)
      else if p = CHR 0x5C then
        (case ps of
           [] \<Rightarrow> False
         | e # ps' \<Rightarrow> (case t of [] \<Rightarrow> False | c # cs \<Rightarrow> c = e \<and> like_match ps' cs))
      else
        (case t of [] \<Rightarrow> False | c # cs \<Rightarrow> c = p \<and> like_match ps cs))"

definition ilike :: "string \<Rightarrow> string \<Rightarrow> bool" where
  "ilike txt pattern = like_match (map lower pattern) (map lower txt)"

section \<open>The handlers\<close>

text \<open>
  \<^verbatim>\<open>paginate_questions(request, selection, page_num=1)\<close>. The page is read from the
  query string; \<open>page_num\<close> is only the default of that lookup.
\<close>

definition paginate_questions :: "request \<Rightarrow> question list \<Rightarrow> int \<Rightarrow> py list" where
  "paginate_questions request selection page_num =
     (let page = args_get (args request) ''page'' page_num py_int;
          start = (page - 1) * QUESTIONS_PER_PAGE;
          end' = start + QUESTIONS_PER_PAGE;
          questions = map format_question selection;
          current_questions = py_slice questions start end'
      in current_questions)"

text \<open>The dictionary comprehension \<^verbatim>\<open>{cat.id: cat.type for cat in categories}\<close>.\<close>

definition cat_dict_of :: "category list \<Rightarrow> (py \<times> py) list" where
  "cat_dict_of cats = fold (\<lambda>cat d. AList.update (PInt (c_id cat)) (PStr (c_type cat)) d) cats []"

definition retrieve_categories :: "database \<Rightarrow> exn + py" where
  "retrieve_categories db =
     (let categories = sort_key c_id (category_rows db);
          cat_dict = cat_dict_of categories
      in if length cat_dict = 0 then abort 404
         else Inr (PDict [(PStr ''success'', PBool True),
                          (PStr ''categories'', PDict cat_dict)]))"

definition retrieve_questions :: "request \<Rightarrow> database \<Rightarrow> exn + py" where
  "retrieve_questions request db =
     (let selection = order_by_id (question_rows db);
          current_questions = paginate_questions request selection 1;
          categories = sort_key c_id (category_rows db);
          cat_dict = cat_dict_of categories
      in if length current_questions = 0 then abort 404
         else Inr (PDict [(PStr ''success'', PBool True),
                          (PStr ''questions'', PList current_questions),
                          (PStr ''total_questions'', PInt (int (length selection))),
                          (PStr ''categories'', PDict cat_dict)]))"

text \<open>
  \<^verbatim>\<open>delete_question\<close>: the whole body stands in a \<^verbatim>\<open>try\<close> whose bare
  \<^verbatim>\<open>except:\<close> answers every exception, the one raised by \<^verbatim>\<open>abort(404)\<close> included,
  with \<^verbatim>\<open>abort(422)\<close>. The handler returns its outcome and the storage after it; no
  exception can follow the removal, so a failed request leaves storage as it was.
\<close>

definition delete_question_body :: "request \<Rightarrow> int \<Rightarrow> database \<Rightarrow> exn + (py \<times> database)" where
  "delete_question_body request question_id db =
     and_then (one_or_none (filter (\<lambda>q. q_id q = question_id) (question_rows db)))
       (\<lambda>question.
          case question of
            None \<Rightarrow> abort 404
          | Some q \<Rightarrow>
              (let db' = question_delete q db;
                   selection = order_by_id (question_rows db');
                   current_questions = paginate_questions request selection 1
               in Inr (PDict [(PStr ''success'', PBool True),
                              (PStr ''deleted'', PInt question_id),
                              (PStr ''questions'', PList current_questions),
                              (PStr ''total_questions'', PInt (int (length selection)))],
                       db')))"

definition delete_question :: "request \<Rightarrow> int \<Rightarrow> database \<Rightarrow> (exn + py) \<times> database" where
  "delete_question request question_id db =
     (case delete_question_body request question_id db of
        Inr (response, db') \<Rightarrow> (Inr response, db')
      | Inl e \<Rightarrow> (abort 422, db))"

text \<open>
  \<^verbatim>\<open>create_search_question\<close>. \<^verbatim>\<open>'%{}%'.format(search)\<close> puts the search term
  itself between the two \<open>%\<close> when it is a string and its \<^verbatim>\<open>str()\<close> otherwise; the
  latter is the parameter \<open>py_str\<close>. The creating branch stands in a \<^verbatim>\<open>try\<close> with a
  bare \<^verbatim>\<open>except:\<close>, as in \<^verbatim>\<open>delete_question\<close>; nothing can raise after the insert.
\<close>

definition format_pattern :: "(py \<Rightarrow> string) \<Rightarrow> py \<Rightarrow> string" where
  "format_pattern py_str search =
     ''%'' @ (case search of PStr s \<Rightarrow> s | _ \<Rightarrow> py_str search) @ ''%''"

definition create_question_body :: "request \<Rightarrow> (py \<times> py) list \<Rightarrow> database \<Rightarrow> exn + (py \<times> database)" where
  "create_question_body request body db =
     (let new_question = dict_get body (PStr ''question'') PNone;
          new_answer = dict_get body (PStr ''answer'') PNone;
          new_category = dict_get body (PStr ''category'') PNone;
          new_difficulty = dict_get body (PStr ''difficulty'') PNone
      in if \<exists>item \<in> set [new_question, new_answer, new_category, new_difficulty]. item = PNone
         then abort 422
         else
           and_then (question_insert new_question new_answer new_category new_difficulty db)
             (\<lambda>(question, db').
                let selection = order_by_id (question_rows db');
                    page_num = ceil_div10 (length selection);
                    current_questions = paginate_questions request selection page_num
                in Inr (PDict [(PStr ''success'', PBool True),
                               (PStr ''created'', PInt (q_id question)),
                               (PStr ''questions'', PList current_questions),
                               (PStr ''total_questions'', PInt (int (length selection)))],
                        db')))"

definition create_search_question :: "(py \<Rightarrow> string) \<Rightarrow> request \<Rightarrow> database \<Rightarrow> (exn + py) \<times> database" where
  "create_search_question py_str request db =
     (case get_json request of
        PDict body \<Rightarrow>
          (let search = dict_get body (PStr ''searchTerm'') PNone
           in if truthy search then
                (let selection = filter (\<lambda>q. ilike (q_question q) (format_pattern py_str search))
                                   (order_by_id (question_rows db))
                 in if length selection = 0 then (abort 404, db)
                    else
                      (let current_questions = paginate_questions request selection 1
                       in (Inr (PDict [(PStr ''success'', PBool True),
                                       (PStr ''questions'', PList current_questions),
                                       (PStr ''total_questions'', PInt (int (length selection)))]),
                           db)))
              else
                (case create_question_body request body db of
                   Inr (response, db') \<Rightarrow> (Inr response, db')
                 | Inl e \<Rightarrow> (abort 422, db)))
      | _ \<Rightarrow> (Inl AttributeError, db))"

definition retrieve_questions_by_selected_category :: "request \<Rightarrow> int \<Rightarrow> database \<Rightarrow> exn + py" where
  "retrieve_questions_by_selected_category request category_id db =
     and_then (one_or_none (filter (\<lambda>c. c_id c = category_id) (category_rows db)))
       (\<lambda>category.
          case category of
            None \<Rightarrow> abort 400
          | Some cat \<Rightarrow>
              (let selection = filter (\<lambda>q. q_category q = c_id cat) (question_rows db);
                   current_questions = paginate_questions request selection 1
               in Inr (PDict [(PStr ''success'', PBool True),
                              (PStr ''questions'', PList current_questions),
                              (PStr ''total_questions'', PInt (int (length selection))),
                              (PStr ''current_category'', PStr (c_type cat))])))"

text \<open>
  \<^verbatim>\<open>create_quiz_questions\<close>. The query is built first and run by \<^verbatim>\<open>.all()\<close>, so
  the database sees the category value and the previous ids only there.

  \<^verbatim>\<open>Question.category == v\<close> is \<^verbatim>\<open>category IS NULL\<close> for \<open>None\<close>, which no stored
  question satisfies, and a comparison with \<open>sql_int v\<close> otherwise.

  \<^verbatim>\<open>~Question.id.in_(v)\<close> walks through \<open>v\<close> as Python does: the elements of a list,
  the characters of a string, the keys of a dictionary (\<open>len\<close> has raised before on
  every other value). Each element other than \<open>None\<close> is compared as \<open>sql_int\<close> says;
  a \<open>None\<close> among them becomes \<^verbatim>\<open>NULL\<close>, and \<^verbatim>\<open>NOT IN\<close> a list with \<^verbatim>\<open>NULL\<close>
  holds for no row.

  \<^verbatim>\<open>random.choice\<close> picks the element at an index below the length; \<open>rnd\<close> is the
  number the generator draws. The handler calls it on a non-empty list only.
\<close>

fun py_iter :: "py \<Rightarrow> exn + py list" where
  "py_iter (PList xs) = Inr xs"
| "py_iter (PStr s) = Inr (map (\<lambda>c. PStr [c]) s)"
| "py_iter (PDict d) = Inr (map fst d)"
| "py_iter _ = Inl TypeError"

definition random_choice :: "nat \<Rightarrow> 'a list \<Rightarrow> 'a" where
  "random_choice rnd xs = xs ! (rnd mod length xs)"

definition category_filter :: "py \<Rightarrow> exn + (question \<Rightarrow> bool)" where
  "category_filter category_id =
     (if eq_zero category_id then Inr (\<lambda>q. True)
      else if category_id = PNone then Inr (\<lambda>q. False)
      else and_then (sql_int category_id) (\<lambda>c. Inr (\<lambda>q. q_category q = c)))"

definition not_in_filter :: "py \<Rightarrow> exn + (question \<Rightarrow> bool)" where
  "not_in_filter previous_questions =
     and_then (py_iter previous_questions) (\<lambda>elements.
     and_then (sql_ints (filter (\<lambda>v. v \<noteq> PNone) elements)) (\<lambda>ns.
       if PNone \<in> set elements then Inr (\<lambda>q. False)
       else Inr (\<lambda>q. q_id q \<notin> set ns)))"

definition create_quiz_questions :: "nat \<Rightarrow> request \<Rightarrow> database \<Rightarrow> exn + py" where
  "create_quiz_questions rnd request db =
     (let body = get_json request
      in and_then (py_get body ''previous_questions'' PNone) (\<lambda>previous_questions.
         and_then (py_get body ''quiz_category'' PNone) (\<lambda>quiz_category.
           if quiz_category = PNone \<or> previous_questions = PNone then abort 400
           else
             and_then (py_getitem quiz_category ''id'') (\<lambda>category_id.
             and_then (py_len previous_questions) (\<lambda>n.
             and_then
               (if n \<noteq> 0 then
                  and_then (category_filter category_id) (\<lambda>in_category.
                  and_then (not_in_filter previous_questions) (\<lambda>not_previous.
                    Inr (filter (\<lambda>q. in_category q \<and> not_previous q) (question_rows db))))
                else
                  and_then (category_filter category_id) (\<lambda>in_category.
                    Inr (filter in_category (question_rows db))))
               (\<lambda>questions.
                  if length questions = 0 then Inr (PDict [(PStr ''success'', PBool True)])
                  else
                    (let question = random_choice rnd questions
                     in Inr (PDict [(PStr ''success'', PBool True),
                                    (PStr ''question'', format_question question)]))))))))"

section \<open>The error handlers\<close>

definition bad_request :: "py \<times> nat" where
  "bad_request =
     (PDict [(PStr ''success'', PBool False), (PStr ''error'', PInt 400),
             (PStr ''message'', PStr ''bad request'')], 400)"

definition not_found :: "py \<times> nat" where
  "not_found =
     (PDict [(PStr ''success'', PBool False), (PStr ''error'', PInt 404),
             (PStr ''message'', PStr ''resource not found'')], 404)"

definition not_allowed :: "py \<times> nat" where
  "not_allowed =
     (PDict [(PStr ''success'', PBool False), (PStr ''error'', PInt 405),
             (PStr ''message'', PStr ''method not allowed'')], 405)"

definition unprocessable :: "py \<times> nat" where
  "unprocessable =
     (PDict [(PStr ''success'', PBool False), (PStr ''error'', PInt 422),
             (PStr ''message'', PStr ''unprocessable'')], 422)"

text \<open>
  What the client receives for a handler's outcome: the returned dictionary with status
  200, the registered envelope for an \<^verbatim>\<open>abort\<close> with one of the four codes, and the
  framework's own error page otherwise (status 500 for an exception that is not an
  \<^verbatim>\<open>HTTPException\<close>).
\<close>

datatype http_response = Json py nat | DefaultErrorPage nat

definition respond :: "exn + py \<Rightarrow> http_response" where
  "respond outcome =
     (case outcome of
        Inr body \<Rightarrow> Json body 200
      | Inl (Abort code) \<Rightarrow>
          (if code = 400 then Json (fst bad_request) (snd bad_request)
           else if code = 404 then Json (fst not_found) (snd not_found)
           else if code = 405 then Json (fst not_allowed) (snd not_allowed)
           else if code = 422 then Json (fst unprocessable) (snd unprocessable)
           else DefaultErrorPage code)
      | Inl _ \<Rightarrow> DefaultErrorPage 500)"

section \<open>Sample data\<close>

text \<open>Concrete questions, storage and requests on which the results below are evaluated.\<close>

definition fixture_question :: "int \<Rightarrow> string \<Rightarrow> int \<Rightarrow> question" where
  "fixture_question i t c =
     \<lparr>q_id = i, q_question = t, q_answer = ''yes'', q_category = c, q_difficulty = 1\<rparr>"

definition fixture_db :: database where
  "fixture_db =
     \<lparr>question_rows = [fixture_question 1 ''abc'' 1, fixture_question 2 ''Who?'' 2],
      category_rows = [\<lparr>c_id = 1, c_type = ''Science''\<rparr>, \<lparr>c_id = 2, c_type = ''Art''\<rparr>],
      next_id = 3,
      array_text = (\<lambda>xs. Inl StorageError)\<rparr>"

definition fixture_page_request :: "string \<Rightarrow> request" where
  "fixture_page_request raw = \<lparr>args = [(''page'', raw)], get_json = PNone\<rparr>"

definition fixture_body_request :: "py \<Rightarrow> request" where
  "fixture_body_request body = \<lparr>args = [], get_json = body\<rparr>"


definition fixture_rows :: "nat \<Rightarrow> question list" where
  "fixture_rows n = map (\<lambda>i. fixture_question (int i) ''q'' 1) [1..<Suc n]"

definition fixture_numbered_request :: "int \<Rightarrow> request" where
  "fixture_numbered_request p = fixture_page_request (if p = 1 then ''1'' else ''2'')"

text \<open>The body \<^verbatim>\<open>new_question\<close> of the test suite.\<close>

definition fixture_new_question :: "(py \<times> py) list" where
  "fixture_new_question =
     [(PStr ''question'', PStr ''What is the best programming language''),
      (PStr ''answer'', PStr ''python''),
      (PStr ''difficulty'', PInt 1),
      (PStr ''category'', PStr ''1'')]"

section \<open>Sequencing\<close>

lemma and_then_simps:
  "and_then (Inr x) f = f x"
  "and_then (Inl e) f = Inl e"
  by (simp_all add: and_then_def)

section \<open>Pagination\<close>

lemma py_slice_window:
  assumes "0 \<le> s"
  shows "py_slice xs s (s + 10) = take 10 (drop (nat s) xs)"
proof (cases "nat s < length xs")
  case True
  with assms have "slice_bound (length xs) s = nat s"
    and "slice_bound (length xs) (s + 10) = min (nat s + 10) (length xs)"
    by (auto simp: slice_bound_def min_def nat_add_distrib)
  with True show ?thesis
    by (simp add: py_slice_def Let_def min_def)
next
  case False
  with assms show ?thesis
    by (simp add: py_slice_def Let_def slice_bound_def min_def)
qed

lemma paginate_questions_slice:
  "paginate_questions request selection page_num =
     py_slice (map format_question selection)
       ((args_get (args request) ''page'' page_num py_int - 1) * 10)
       ((args_get (args request) ''page'' page_num py_int - 1) * 10 + 10)"
  by (simp add: paginate_questions_def Let_def QUESTIONS_PER_PAGE_def)

lemma paginate_questions_from_one:
  assumes "1 \<le> args_get (args request) ''page'' page_num py_int"
  shows "paginate_questions request selection page_num =
     take 10 (drop (nat ((args_get (args request) ''page'' page_num py_int - 1) * 10))
       (map format_question selection))"
proof -
  from assms have "0 \<le> (args_get (args request) ''page'' page_num py_int - 1) * 10"
    by simp
  from py_slice_window [OF this] show ?thesis
    by (simp only: paginate_questions_slice)
qed



lemma fixture_pages:
  "args_get (args (fixture_page_request ''1'')) ''page'' d py_int = 1"
  "args_get (args (fixture_page_request ''2'')) ''page'' d py_int = 2"
  "args_get (args (fixture_page_request '' 3'')) ''page'' d py_int = 3"
  "args_get (args (fixture_page_request ''0'')) ''page'' d py_int = 0"
  "args_get (args (fixture_page_request ''-1'')) ''page'' d py_int = - 1"
  "args_get (args (fixture_page_request ''two'')) ''page'' d py_int = d"
  "args_get (args (fixture_page_request ''12'')) ''page'' d py_int = 12"
  "args_get (args (fixture_page_request ''1_2'')) ''page'' d py_int = 12"
  "args_get (args (fixture_page_request ''2abc'')) ''page'' d py_int = d"
  "args_get (args (fixture_page_request ''1__2'')) ''page'' d py_int = d"
  "args_get (args (fixture_page_request [CHR 0x1C, CHR ''2''])) ''page'' d py_int = d"
  "args_get (args (fixture_page_request '' '')) ''page'' d py_int = d"
  "args_get (args (fixture_body_request body)) ''page'' d py_int = d"
  by (simp_all add: fixture_page_request_def fixture_body_request_def args_get_def py_int_def
      max_str_digits_def read_int_def strip_def is_space_def parse_unsigned_def digit_of_def)

subsection \<open>Reading the page parameter\<close>




















lemma py_slice_page_zero: "py_slice xs (- 10) 0 = []"
  by (simp add: py_slice_def Let_def slice_bound_def)

lemma py_slice_negative:
  assumes "s < 0" "s + 10 < 0"
  shows "py_slice xs s (s + 10) =
     take (nat (int (length xs) + s + 10) - nat (int (length xs) + s))
       (drop (nat (int (length xs) + s)) xs)"
proof -
  from assms have "slice_bound (length xs) s = nat (int (length xs) + s)"
    and "slice_bound (length xs) (s + 10) = nat (int (length xs) + s + 10)"
    by (auto simp: slice_bound_def max_def ac_simps)
  then show ?thesis
    by (simp only: py_slice_def Let_def)
qed

lemma length_order_by_id: "length (order_by_id rows) = length rows"
  by (simp add: order_by_id_def)

lemma retrieve_questions_response:
  "retrieve_questions request db =
     (if paginate_questions request (order_by_id (question_rows db)) 1 = [] then Inl (Abort 404)
      else Inr (PDict [(PStr ''success'', PBool True),
                       (PStr ''questions'',
                          PList (paginate_questions request (order_by_id (question_rows db)) 1)),
                       (PStr ''total_questions'', PInt (int (length (question_rows db)))),
                       (PStr ''categories'', PDict (cat_dict_of (sort_key c_id (category_rows db))))]))"
  by (simp add: retrieve_questions_def Let_def abort_def length_order_by_id)

lemma length_fixture_rows: "length (fixture_rows n) = n"
  by (simp add: fixture_rows_def)

lemma take_fixture_rows: "m \<le> n \<Longrightarrow> take m (fixture_rows n) = fixture_rows m"
  by (simp add: fixture_rows_def take_map del: upt_Suc)

text \<open>
  C10. For a page \<open>p \<le> 0\<close> the helper evaluates the slice
  \<^verbatim>\<open>questions[(p-1)*10 : (p-1)*10 + 10]\<close>. For \<open>p = 0\<close> the result is empty for every
  list, and \<^verbatim>\<open>GET /questions?page=0\<close> answers 404. For \<open>p < 0\<close> both bounds count from
  the end of the list, so the result can be non-empty: on twenty records page \<open>-1\<close>
  returns the first ten.
\<close>

theorem paginate_questions_nonpositive_page:
  "(let page = args_get (args request) ''page'' page_num py_int;
        start = (page - 1) * 10;
        formatted = map format_question selection;
        n = int (length selection);
        current = paginate_questions request selection page_num
    in (page \<le> 0 \<longrightarrow> current = py_slice formatted start (start + 10))
     \<and> (page = 0 \<longrightarrow> current = [])
     \<and> (args_get (args request) ''page'' 1 py_int = 0 \<longrightarrow>
          retrieve_questions request db = Inl (Abort 404)
        \<and> respond (retrieve_questions request db) = Json (fst not_found) 404)
     \<and> (page < 0 \<longrightarrow>
          current = take (nat (n + start + 10) - nat (n + start)) (drop (nat (n + start)) formatted))
     \<and> (page = - 1 \<and> length selection = 20 \<longrightarrow>
          current = take 10 formatted \<and> length current = 10))"
proof -
  let ?page = "args_get (args request) ''page'' page_num py_int"
  let ?formatted = "map format_question selection"
  have zero: "paginate_questions request selection page_num = []" if "?page = 0"
    using that by (simp add: paginate_questions_slice py_slice_page_zero)
  have zero_db: "retrieve_questions request db = Inl (Abort 404)"
    if "args_get (args request) ''page'' 1 py_int = 0"
    using that by (simp add: retrieve_questions_response paginate_questions_slice py_slice_page_zero)
  have negative: "paginate_questions request selection page_num =
      take (nat (int (length selection) + (?page - 1) * 10 + 10) - nat (int (length selection) + (?page - 1) * 10))
        (drop (nat (int (length selection) + (?page - 1) * 10)) ?formatted)" if "?page < 0"
  proof -
    from that have "(?page - 1) * 10 < 0" "(?page - 1) * 10 + 10 < 0" by simp_all
    from py_slice_negative [OF this, of ?formatted] show ?thesis
      by (simp only: paginate_questions_slice length_map)
  qed
  have minus_one: "paginate_questions request selection page_num = take 10 ?formatted"
    if "?page = - 1" "length selection = 20"
    using that by (simp add: paginate_questions_slice py_slice_def Let_def slice_bound_def)
  show ?thesis
    unfolding Let_def
    apply (intro conjI impI)
    subgoal by (simp only: paginate_questions_slice)
    subgoal by (rule zero)
    subgoal by (rule zero_db)
    subgoal by (simp add: zero_db respond_def not_found_def)
    subgoal by (rule negative)
    subgoal by (simp add: minus_one)
    subgoal by (simp add: minus_one)
    done
qed

theorem paginate_questions_nonpositive_page_witness:
  "paginate_questions (fixture_page_request ''0'') (fixture_rows 20) 1 = []
   \<and> retrieve_questions (fixture_page_request ''0'') fixture_db = Inl (Abort 404)
   \<and> paginate_questions (fixture_page_request ''-1'') (fixture_rows 20) 1
       = map format_question (fixture_rows 10)"
proof -
  note zero = paginate_questions_nonpositive_page
    [of "fixture_page_request ''0''" 1 "fixture_rows 20" fixture_db, unfolded Let_def fixture_pages]
  note minus = paginate_questions_nonpositive_page
    [of "fixture_page_request ''-1''" 1 "fixture_rows 20" fixture_db, unfolded Let_def fixture_pages]
  from zero have "paginate_questions (fixture_page_request ''0'') (fixture_rows 20) 1 = []"
    and "retrieve_questions (fixture_page_request ''0'') fixture_db = Inl (Abort 404)"
    by blast+
  moreover from minus length_fixture_rows [of 20]
  have "paginate_questions (fixture_page_request ''-1'') (fixture_rows 20) 1
       = take 10 (map format_question (fixture_rows 20))"
    by blast
  ultimately show ?thesis
    by (simp add: take_map take_fixture_rows)
qed

lemma concat_windows:
  "concat (map (\<lambda>i. take m (drop (i * m) xs)) [0..<k]) = take (k * m) xs"
proof (induction k)
  case 0
  show ?case by simp
next
  case (Suc k)
  have "take (k * m + m) xs = take (k * m) xs @ take m (drop (k * m) xs)"
    by (rule take_add)
  moreover have "Suc k * m = k * m + m"
    by simp
  ultimately have "take (Suc k * m) xs = take (k * m) xs @ take m (drop (k * m) xs)"
    by (simp only:)
  with Suc show ?case by simp
qed

lemma page_offset_in_range:
  assumes "1 \<le> p" "p \<le> ceil_div10 n"
  shows "nat ((p - 1) * 10) < n"
  using assms by (simp add: ceil_div10_def)

lemma fixture_numbered_pages:
  assumes "1 \<le> p" "p \<le> 2"
  shows "args_get (args (fixture_numbered_request p)) ''page'' 1 py_int = p"
proof -
  from assms have "p = 1 \<or> p = 2" by arith
  then show ?thesis
    by (auto simp: fixture_numbered_request_def fixture_pages)
qed

text \<open>
  C3. Let the list have \<open>n\<close> records and let \<open>rq p\<close> be a request whose page parameter
  reads as \<open>p\<close>, for every \<open>p\<close> from 1 to \<open>ceil(n/10)\<close>. Each of these pages holds at
  most ten records and at least one, \<^verbatim>\<open>GET /questions\<close> answers it with that page and
  the total, and the pages 1 to \<open>ceil(n/10)\<close> put one after the other are the whole
  list in its order: nothing is repeated and nothing is left out.
\<close>

theorem paginate_questions_pages:
  assumes pages: "\<And>p. 1 \<le> p \<Longrightarrow> p \<le> ceil_div10 (length selection) \<Longrightarrow>
     args_get (args (rq p)) ''page'' 1 py_int = p"
  shows "(\<forall>p. 1 \<le> p \<and> p \<le> ceil_div10 (length selection) \<longrightarrow>
            length (paginate_questions (rq p) selection 1) \<le> 10
          \<and> paginate_questions (rq p) selection 1 \<noteq> []
          \<and> (selection = order_by_id (question_rows db) \<longrightarrow>
               retrieve_questions (rq p) db =
                 Inr (PDict [(PStr ''success'', PBool True),
                             (PStr ''questions'', PList (paginate_questions (rq p) selection 1)),
                             (PStr ''total_questions'', PInt (int (length selection))),
                             (PStr ''categories'',
                                PDict (cat_dict_of (sort_key c_id (category_rows db))))])))
       \<and> concat (map (\<lambda>p. paginate_questions (rq (int p)) selection 1)
                   [1..<Suc (nat (ceil_div10 (length selection)))])
           = map format_question selection"
proof -
  let ?F = "map format_question selection"
  let ?k = "nat (ceil_div10 (length selection))"
  have page: "paginate_questions (rq p) selection 1 = take 10 (drop (nat ((p - 1) * 10)) ?F)"
    if "1 \<le> p" "p \<le> ceil_div10 (length selection)" for p
    using paginate_questions_from_one [of "rq p" 1 selection] pages [OF that] that by simp
  have nonempty: "paginate_questions (rq p) selection 1 \<noteq> []"
    if "1 \<le> p" "p \<le> ceil_div10 (length selection)" for p
    using page [OF that] page_offset_in_range [OF that] by simp
  have response: "retrieve_questions (rq p) db =
      Inr (PDict [(PStr ''success'', PBool True),
                  (PStr ''questions'', PList (paginate_questions (rq p) selection 1)),
                  (PStr ''total_questions'', PInt (int (length selection))),
                  (PStr ''categories'', PDict (cat_dict_of (sort_key c_id (category_rows db))))])"
    if "1 \<le> p" "p \<le> ceil_div10 (length selection)" "selection = order_by_id (question_rows db)" for p
    using nonempty [OF that(1,2)] that(3)
    by (simp add: retrieve_questions_response length_order_by_id)
  have "map (\<lambda>p. paginate_questions (rq (int p)) selection 1) [1..<Suc ?k]
      = map (\<lambda>i. take 10 (drop (i * 10) ?F)) [0..<?k]"
  proof -
    have "[1..<Suc ?k] = map Suc [0..<?k]"
      by (simp add: map_Suc_upt del: upt_Suc)
    moreover have "paginate_questions (rq (int (Suc i))) selection 1 = take 10 (drop (i * 10) ?F)"
      if "i \<in> set [0..<?k]" for i
    proof -
      from that have "1 \<le> int (Suc i)" "int (Suc i) \<le> ceil_div10 (length selection)"
        by auto
      from page [OF this] show ?thesis by (simp add: nat_mult_distrib)
    qed
    ultimately show ?thesis
      by (simp del: upt_Suc cong: map_cong)
  qed
  then have "concat (map (\<lambda>p. paginate_questions (rq (int p)) selection 1) [1..<Suc ?k])
      = take (?k * 10) ?F"
    by (simp only: concat_windows)
  moreover have "length ?F \<le> ?k * 10"
    by (simp add: ceil_div10_def)
  ultimately have whole: "concat (map (\<lambda>p. paginate_questions (rq (int p)) selection 1) [1..<Suc ?k]) = ?F"
    by simp
  have short: "length (paginate_questions (rq p) selection 1) \<le> 10"
    if "1 \<le> p" "p \<le> ceil_div10 (length selection)" for p
    by (simp add: page [OF that])
  show ?thesis
  proof (intro conjI allI impI)
    show "concat (map (\<lambda>p. paginate_questions (rq (int p)) selection 1) [1..<Suc ?k]) = ?F"
      by (rule whole)
  next
    fix p assume "1 \<le> p \<and> p \<le> ceil_div10 (length selection)"
    then show "length (paginate_questions (rq p) selection 1) \<le> 10"
      using short by simp
  next
    fix p assume "1 \<le> p \<and> p \<le> ceil_div10 (length selection)"
    then show "paginate_questions (rq p) selection 1 \<noteq> []"
      using nonempty by simp
  next
    fix p assume "1 \<le> p \<and> p \<le> ceil_div10 (length selection)"
      and "selection = order_by_id (question_rows db)"
    then show "retrieve_questions (rq p) db =
      Inr (PDict [(PStr ''success'', PBool True),
                  (PStr ''questions'', PList (paginate_questions (rq p) selection 1)),
                  (PStr ''total_questions'', PInt (int (length selection))),
                  (PStr ''categories'', PDict (cat_dict_of (sort_key c_id (category_rows db))))])"
      using response [of p] by simp
  qed
qed

theorem paginate_questions_pages_witness:
  "concat (map (\<lambda>p. paginate_questions (fixture_numbered_request (int p)) (fixture_rows 12) 1) [1, 2])
     = map format_question (fixture_rows 12)
   \<and> length (paginate_questions (fixture_numbered_request 1) (fixture_rows 12) 1) \<le> 10
   \<and> length (paginate_questions (fixture_numbered_request 2) (fixture_rows 12) 1) \<le> 10"
proof -
  have pages: "ceil_div10 (length (fixture_rows 12)) = 2"
    by (simp add: length_fixture_rows ceil_div10_def)
  have "\<And>p. 1 \<le> p \<Longrightarrow> p \<le> ceil_div10 (length (fixture_rows 12)) \<Longrightarrow>
     args_get (args (fixture_numbered_request p)) ''page'' 1 py_int = p"
    by (simp add: pages fixture_numbered_pages)
  from paginate_questions_pages [of "fixture_rows 12" fixture_numbered_request fixture_db, OF this]
  show ?thesis
    by (simp add: pages upt_rec)
qed

section \<open>Deleting a question\<close>

lemma delete_question_missing:
  assumes "filter (\<lambda>q. q_id q = question_id) (question_rows db) = []"
  shows "delete_question request question_id db = (Inl (Abort 422), db)"
  using assms
  by (simp add: delete_question_def delete_question_body_def one_or_none_def and_then_def abort_def)

lemma delete_question_never_not_found:
  "fst (delete_question request question_id db) \<noteq> Inl (Abort 404)"
  by (simp add: delete_question_def abort_def split: sum.splits prod.splits)

text \<open>
  C1. \<^verbatim>\<open>DELETE /questions/{id}\<close> for an id that no stored question has: the handler
  calls \<^verbatim>\<open>abort(404)\<close> inside its \<^verbatim>\<open>try\<close>, the bare \<^verbatim>\<open>except:\<close> catches that
  exception and calls \<^verbatim>\<open>abort(422)\<close>. The client receives the 422 envelope
  (\<open>unprocessable\<close>), not the 404 one. Evaluated for id 999 on the sample storage;
  \<open>delete_question_missing\<close> shows the same for every request and storage.
\<close>

theorem delete_question_missing_id_unprocessable:
  "filter (\<lambda>q. q_id q = 999) (question_rows fixture_db) = []
   \<and> delete_question (fixture_body_request PNone) 999 fixture_db = (Inl (Abort 422), fixture_db)
   \<and> respond (fst (delete_question (fixture_body_request PNone) 999 fixture_db))
       = Json (PDict [(PStr ''success'', PBool False), (PStr ''error'', PInt 422),
                      (PStr ''message'', PStr ''unprocessable'')]) 422"
proof -
  have missing: "filter (\<lambda>q. q_id q = 999) (question_rows fixture_db) = []"
    by (simp add: fixture_db_def fixture_question_def)
  from delete_question_missing [OF missing] missing show ?thesis
    by (simp add: respond_def unprocessable_def abort_def)
qed

section \<open>Creating a question\<close>

lemma respond_abort:
  "respond (Inl (Abort 400)) = Json (fst bad_request) 400"
  "respond (Inl (Abort 404)) = Json (fst not_found) 404"
  "respond (Inl (Abort 405)) = Json (fst not_allowed) 405"
  "respond (Inl (Abort 422)) = Json (fst unprocessable) 422"
  by (simp_all add: respond_def bad_request_def not_found_def not_allowed_def unprocessable_def)



lemma create_search_question_create_branch:
  assumes "get_json request = PDict body"
    and "\<not> truthy (dict_get body (PStr ''searchTerm'') PNone)"
  shows "create_search_question py_str request db =
     (case create_question_body request body db of
        Inr (response, db') \<Rightarrow> (Inr response, db')
      | Inl e \<Rightarrow> (Inl (Abort 422), db))"
  using assms by (simp add: create_search_question_def Let_def abort_def split: sum.splits)






section \<open>The quiz\<close>







text \<open>The part of the quiz handler after the check for the two fields.\<close>

lemma create_quiz_questions_fields:
  assumes "get_json request = PDict body"
  shows "create_quiz_questions rnd request db =
     (let previous_questions = dict_get body (PStr ''previous_questions'') PNone;
          quiz_category = dict_get body (PStr ''quiz_category'') PNone
      in if quiz_category = PNone \<or> previous_questions = PNone then Inl (Abort 400)
         else
           and_then (py_getitem quiz_category ''id'') (\<lambda>category_id.
           and_then (py_len previous_questions) (\<lambda>n.
           and_then
             (if n \<noteq> 0 then
                and_then (category_filter category_id) (\<lambda>in_category.
                and_then (not_in_filter previous_questions) (\<lambda>not_previous.
                  Inr (filter (\<lambda>q. in_category q \<and> not_previous q) (question_rows db))))
              else
                and_then (category_filter category_id) (\<lambda>in_category.
                  Inr (filter in_category (question_rows db))))
             (\<lambda>questions.
                if length questions = 0 then Inr (PDict [(PStr ''success'', PBool True)])
                else Inr (PDict [(PStr ''success'', PBool True),
                                 (PStr ''question'', format_question (random_choice rnd questions))])))))"
  using assms unfolding create_quiz_questions_def Let_def py_get_def abort_def
  by (simp add: and_then_simps)








lemma sql_ints_no_none:
  assumes "sql_ints vs = Inr ns"
  shows "PNone \<notin> set vs"
  using assms
proof (induction vs arbitrary: ns)
  case Nil
  show ?case by simp
next
  case (Cons v vs)
  from Cons.prems obtain n ms where "sql_int v = Inr n" "sql_ints vs = Inr ms"
    by (auto simp: and_then_def split: sum.splits)
  moreover from this(1) have "v \<noteq> PNone"
    by (auto simp: sql_int_def)
  ultimately show ?case
    using Cons.IH by auto
qed

lemma not_in_filter_ids:
  assumes "sql_ints previous = Inr ids"
  shows "not_in_filter (PList previous) = Inr (\<lambda>q. q_id q \<notin> set ids)"
proof -
  from sql_ints_no_none [OF assms] have "filter (\<lambda>v. v \<noteq> PNone) previous = previous"
    by (auto simp: filter_id_conv)
  with assms sql_ints_no_none [OF assms] show ?thesis
    by (simp add: not_in_filter_def and_then_simps)
qed

lemma category_filter_accepts:
  assumes "sql_int category_id = Inr c"
  shows "\<exists>f. category_filter category_id = Inr f
           \<and> (\<forall>q. f q \<longleftrightarrow> category_id = PInt 0 \<or> q_category q = c)"
proof (cases "eq_zero category_id")
  case True
  with assms have "category_id = PInt 0"
    by (cases category_id) (simp_all add: sql_int_def)
  with True show ?thesis
    by (simp add: category_filter_def)
next
  case False
  then have "category_id \<noteq> PInt 0"
    by auto
  moreover from assms have "category_id \<noteq> PNone"
    by (auto simp: sql_int_def)
  ultimately show ?thesis
    using False assms by (simp add: category_filter_def and_then_simps)
qed

lemma random_choice_member:
  assumes "xs \<noteq> []"
  shows "random_choice rnd xs \<in> set xs"
  using assms by (simp add: random_choice_def)

lemma random_choice_reaches:
  assumes "x \<in> set xs"
  shows "\<exists>rnd. random_choice rnd xs = x"
proof -
  from assms obtain i where "i < length xs" "xs ! i = x"
    by (auto simp: in_set_conv_nth)
  then have "random_choice i xs = x"
    by (simp add: random_choice_def)
  then show ?thesis ..
qed

lemma create_quiz_questions_selects:
  assumes body: "get_json request = PDict body"
    and previous: "dict_get body (PStr ''previous_questions'') PNone = PList previous"
    and category: "dict_get body (PStr ''quiz_category'') PNone = PDict quiz_category"
    and ident: "map_of quiz_category (PStr ''id'') = Some category_id"
    and cat: "sql_int category_id = Inr c"
    and ids: "sql_ints previous = Inr ids"
  shows "create_quiz_questions rnd request db =
     (let pool = filter (\<lambda>q. (category_id = PInt 0 \<or> q_category q = c) \<and> q_id q \<notin> set ids)
                   (question_rows db)
      in if pool = [] then Inr (PDict [(PStr ''success'', PBool True)])
         else Inr (PDict [(PStr ''success'', PBool True),
                          (PStr ''question'', format_question (random_choice rnd pool))]))"
proof -
  from category_filter_accepts [OF cat] obtain f
    where f: "category_filter category_id = Inr f"
      and accepts: "\<And>q. f q \<longleftrightarrow> category_id = PInt 0 \<or> q_category q = c"
    by blast
  have item: "py_getitem (PDict quiz_category) ''id'' = Inr category_id"
    using ident by (simp add: py_getitem_def)
  show ?thesis
  proof (cases "previous = []")
    case True
    with ids have "ids = []"
      by simp
    with True show ?thesis
      unfolding create_quiz_questions_fields [OF body] Let_def previous category
      by (simp add: item f and_then_simps accepts cong: filter_cong)
  next
    case False
    have "not_in_filter (PList previous) = Inr (\<lambda>q. q_id q \<notin> set ids)"
      using ids by (rule not_in_filter_ids)
    with False show ?thesis
      unfolding create_quiz_questions_fields [OF body] Let_def previous category
      by (simp add: item f and_then_simps accepts cong: filter_cong)
  qed
qed

text \<open>
  C7. A \<^verbatim>\<open>POST /quizzes\<close> with both fields present, \<open>previous_questions\<close> a list of
  ids and \<open>quiz_category\<close> an object with an \<open>id\<close>: the pool is every question when
  the id is the integer 0 and the questions of that category otherwise, without the
  questions whose id is among the previous ones. When the pool is empty the response is
  \<^verbatim>\<open>{success: True}\<close> alone; otherwise it carries a question of the pool, and every
  question of the pool is returned for some draw of the random generator. (That the draw
  is uniform is a property of the generator and is not expressed here.)
\<close>

theorem create_quiz_questions_pool:
  assumes "get_json request = PDict body"
    and "dict_get body (PStr ''previous_questions'') PNone = PList previous"
    and "dict_get body (PStr ''quiz_category'') PNone = PDict quiz_category"
    and "map_of quiz_category (PStr ''id'') = Some category_id"
    and "sql_int category_id = Inr c"
    and "sql_ints previous = Inr ids"
  shows "(let pool = filter (\<lambda>q. (category_id = PInt 0 \<or> q_category q = c) \<and> q_id q \<notin> set ids)
                       (question_rows db)
          in (pool = [] \<longrightarrow>
                create_quiz_questions rnd request db = Inr (PDict [(PStr ''success'', PBool True)]))
           \<and> (pool \<noteq> [] \<longrightarrow>
                random_choice rnd pool \<in> set pool
              \<and> create_quiz_questions rnd request db
                  = Inr (PDict [(PStr ''success'', PBool True),
                                (PStr ''question'', format_question (random_choice rnd pool))]))
           \<and> (\<forall>q \<in> set pool. \<exists>r.
                create_quiz_questions r request db
                  = Inr (PDict [(PStr ''success'', PBool True),
                                (PStr ''question'', format_question q)])))"
proof -
  let ?pool = "filter (\<lambda>q. (category_id = PInt 0 \<or> q_category q = c) \<and> q_id q \<notin> set ids)
                 (question_rows db)"
  note selects = create_quiz_questions_selects [OF assms, of _ db, unfolded Let_def]
  have empty: "create_quiz_questions rnd request db = Inr (PDict [(PStr ''success'', PBool True)])"
    if "?pool = []"
    using that by (simp add: selects)
  have chosen: "create_quiz_questions rnd request db
      = Inr (PDict [(PStr ''success'', PBool True),
                    (PStr ''question'', format_question (random_choice rnd ?pool))])"
    if "?pool \<noteq> []"
    using that by (simp add: selects)
  have every: "\<exists>r. create_quiz_questions r request db
      = Inr (PDict [(PStr ''success'', PBool True), (PStr ''question'', format_question q)])"
    if "q \<in> set ?pool" for q
  proof -
    from random_choice_reaches [OF that] obtain r where r: "random_choice r ?pool = q" ..
    from that have "?pool \<noteq> []" by (metis empty_iff empty_set)
    then have "create_quiz_questions r request db
      = Inr (PDict [(PStr ''success'', PBool True),
                    (PStr ''question'', format_question (random_choice r ?pool))])"
      by (simp add: selects)
    with r show ?thesis by auto
  qed
  show ?thesis
    unfolding Let_def
    using empty chosen every random_choice_member [of ?pool rnd] by blast
qed


theorem create_quiz_questions_pool_witness:
  "create_quiz_questions 3
     (fixture_body_request (PDict [(PStr ''previous_questions'', PList []),
        (PStr ''quiz_category'', PDict [(PStr ''type'', PStr ''click''), (PStr ''id'', PInt 0)])]))
     fixture_db
     = Inr (PDict [(PStr ''success'', PBool True),
                   (PStr ''question'', format_question (fixture_question 2 ''Who?'' 2))])
   \<and> create_quiz_questions 3
     (fixture_body_request (PDict [(PStr ''previous_questions'', PList [PInt 1]),
        (PStr ''quiz_category'', PDict [(PStr ''type'', PStr ''Science''), (PStr ''id'', PStr ''1'')])]))
     fixture_db
     = Inr (PDict [(PStr ''success'', PBool True)])"
proof -
  have choice: "random_choice 3 [a, b] = b" for a b :: question
  proof -
    have "length [a, b] = 2"
      by simp
    then have "random_choice 3 [a, b] = [a, b] ! (3 mod 2)"
      unfolding random_choice_def by (simp only:)
    then show ?thesis
      by simp
  qed
  have number: "sql_int (PInt 1) = Inr 1"
    by (simp add: sql_int_def)
  have one: "sql_int (PStr ''1'') = Inr 1"
    by (simp add: sql_int_def read_int_def in_int32_def strip_def is_space_def parse_unsigned_def
        digit_of_def)
  have "create_quiz_questions 3
     (fixture_body_request (PDict [(PStr ''previous_questions'', PList []),
        (PStr ''quiz_category'', PDict [(PStr ''type'', PStr ''click''), (PStr ''id'', PInt 0)])]))
     fixture_db
     = Inr (PDict [(PStr ''success'', PBool True),
                   (PStr ''question'', format_question (fixture_question 2 ''Who?'' 2))])"
    using create_quiz_questions_pool
      [where request = "fixture_body_request (PDict [(PStr ''previous_questions'', PList []),
          (PStr ''quiz_category'', PDict [(PStr ''type'', PStr ''click''), (PStr ''id'', PInt 0)])])"
        and body = "[(PStr ''previous_questions'', PList []),
          (PStr ''quiz_category'', PDict [(PStr ''type'', PStr ''click''), (PStr ''id'', PInt 0)])]"
        and previous = "[]"
        and quiz_category = "[(PStr ''type'', PStr ''click''), (PStr ''id'', PInt 0)]"
        and category_id = "PInt 0" and c = 0 and ids = "[]" and db = fixture_db and rnd = 3]
    by (simp add: fixture_body_request_def dict_get_def sql_int_def fixture_db_def
        choice Let_def)
  moreover have "create_quiz_questions 3
     (fixture_body_request (PDict [(PStr ''previous_questions'', PList [PInt 1]),
        (PStr ''quiz_category'', PDict [(PStr ''type'', PStr ''Science''), (PStr ''id'', PStr ''1'')])]))
     fixture_db
     = Inr (PDict [(PStr ''success'', PBool True)])"
    using create_quiz_questions_pool
      [where request = "fixture_body_request (PDict [(PStr ''previous_questions'', PList [PInt 1]),
          (PStr ''quiz_category'', PDict [(PStr ''type'', PStr ''Science''), (PStr ''id'', PStr ''1'')])])"
        and body = "[(PStr ''previous_questions'', PList [PInt 1]),
          (PStr ''quiz_category'', PDict [(PStr ''type'', PStr ''Science''), (PStr ''id'', PStr ''1'')])]"
        and previous = "[PInt 1]"
        and quiz_category = "[(PStr ''type'', PStr ''Science''), (PStr ''id'', PStr ''1'')]"
        and category_id = "PStr ''1''" and c = 1 and ids = "[1]" and db = fixture_db and rnd = 3]
    by (simp add: fixture_body_request_def dict_get_def one number and_then_simps
        fixture_db_def fixture_question_def Let_def)
  ultimately show ?thesis by simp
qed

section \<open>Questions of a category\<close>

lemma filter_unique_key:
  assumes "distinct (map f xs)" "x \<in> set xs"
  shows "filter (\<lambda>y. f y = f x) xs = [x]"
  using assms
proof (induction xs)
  case Nil
  then show ?case by simp
next
  case (Cons y ys)
  show ?case
  proof (cases "y = x")
    case True
    with Cons.prems have "f x \<notin> f ` set ys"
      by auto
    then have "\<forall>z \<in> set ys. f z \<noteq> f x"
      by (metis imageI)
    then have "filter (\<lambda>z. f z = f x) ys = []"
      by (simp add: filter_empty_conv)
    with True show ?thesis by simp
  next
    case False
    with Cons.prems have "x \<in> set ys" "f y \<noteq> f x"
      by auto
    with Cons show ?thesis by simp
  qed
qed

lemma set_py_slice: "set (py_slice xs a b) \<subseteq> set xs"
  unfolding py_slice_def Let_def
  by (meson set_take_subset set_drop_subset subset_trans)

lemma paginate_questions_members:
  assumes "fq \<in> set (paginate_questions request selection page_num)"
  shows "\<exists>q \<in> set selection. fq = format_question q"
proof -
  have "set (paginate_questions request selection page_num) \<subseteq> set (map format_question selection)"
    unfolding paginate_questions_slice by (rule set_py_slice)
  with assms show ?thesis by auto
qed

text \<open>
  C6. \<^verbatim>\<open>GET /categories/{id}/questions\<close>: when no category has the id the handler
  aborts with 400. When the category exists (ids of categories being unique) the handler
  succeeds whatever the page holds, an empty page included, with the page of the
  questions of that category, their total number and the type of the category as
  \<open>current_category\<close>; every returned question has the category's id as its category.
\<close>

theorem retrieve_questions_by_selected_category_outcome:
  "(let selection = filter (\<lambda>q. q_category q = category_id) (question_rows db);
        current = paginate_questions request selection 1;
        outcome = retrieve_questions_by_selected_category request category_id db
    in ((\<forall>cat \<in> set (category_rows db). c_id cat \<noteq> category_id) \<longrightarrow>
          outcome = Inl (Abort 400)
        \<and> respond outcome = Json (PDict [(PStr ''success'', PBool False), (PStr ''error'', PInt 400),
                                         (PStr ''message'', PStr ''bad request'')]) 400)
     \<and> (distinct (map c_id (category_rows db)) \<and> cat \<in> set (category_rows db)
          \<and> c_id cat = category_id \<longrightarrow>
          outcome = Inr (PDict [(PStr ''success'', PBool True),
                                (PStr ''questions'', PList current),
                                (PStr ''total_questions'', PInt (int (length selection))),
                                (PStr ''current_category'', PStr (c_type cat))])
        \<and> (\<forall>fq \<in> set current.
              py_getitem fq ''category'' = Inr (PInt category_id)
            \<and> (\<exists>q \<in> set (question_rows db). q_category q = category_id \<and> fq = format_question q))))"
proof -
  let ?selection = "filter (\<lambda>q. q_category q = category_id) (question_rows db)"
  have missing: "retrieve_questions_by_selected_category request category_id db = Inl (Abort 400)"
    if "\<forall>cat \<in> set (category_rows db). c_id cat \<noteq> category_id"
  proof -
    from that have "filter (\<lambda>c. c_id c = category_id) (category_rows db) = []"
      by (simp add: filter_empty_conv)
    then show ?thesis
      by (simp add: retrieve_questions_by_selected_category_def one_or_none_def and_then_simps abort_def)
  qed
  have found: "retrieve_questions_by_selected_category request category_id db
      = Inr (PDict [(PStr ''success'', PBool True),
                    (PStr ''questions'', PList (paginate_questions request ?selection 1)),
                    (PStr ''total_questions'', PInt (int (length ?selection))),
                    (PStr ''current_category'', PStr (c_type cat))])"
    if "distinct (map c_id (category_rows db))" "cat \<in> set (category_rows db)" "c_id cat = category_id"
  proof -
    from filter_unique_key [OF that(1,2)] that(3)
    have "filter (\<lambda>c. c_id c = category_id) (category_rows db) = [cat]"
      by simp
    with that(3) show ?thesis
      by (simp add: retrieve_questions_by_selected_category_def one_or_none_def and_then_simps Let_def)
  qed
  have members: "py_getitem fq ''category'' = Inr (PInt category_id)
      \<and> (\<exists>q \<in> set (question_rows db). q_category q = category_id \<and> fq = format_question q)"
    if "fq \<in> set (paginate_questions request ?selection 1)" for fq
  proof -
    from paginate_questions_members [OF that] obtain q
      where "q \<in> set ?selection" "fq = format_question q" by blast
    then show ?thesis
      by (auto simp: format_question_def py_getitem_def)
  qed
  show ?thesis
    unfolding Let_def
    using missing found members by (auto simp: respond_def bad_request_def)
qed


theorem retrieve_questions_by_selected_category_outcome_witness:
  "retrieve_questions_by_selected_category (fixture_body_request PNone) 9 fixture_db
     = Inl (Abort 400)
   \<and> retrieve_questions_by_selected_category (fixture_body_request PNone) 1 fixture_db
     = Inr (PDict [(PStr ''success'', PBool True),
                   (PStr ''questions'', PList [format_question (fixture_question 1 ''abc'' 1)]),
                   (PStr ''total_questions'', PInt 1),
                   (PStr ''current_category'', PStr ''Science'')])
   \<and> retrieve_questions_by_selected_category (fixture_page_request ''2'') 1 fixture_db
     = Inr (PDict [(PStr ''success'', PBool True),
                   (PStr ''questions'', PList []),
                   (PStr ''total_questions'', PInt 1),
                   (PStr ''current_category'', PStr ''Science'')])"
proof -
  have rows: "filter (\<lambda>q. q_category q = 1) (question_rows fixture_db) = [fixture_question 1 ''abc'' 1]"
    by (simp add: fixture_db_def fixture_question_def)
  have first: "paginate_questions (fixture_body_request PNone) [fixture_question 1 ''abc'' 1] 1
      = [format_question (fixture_question 1 ''abc'' 1)]"
    by (simp add: paginate_questions_from_one fixture_pages)
  have second: "paginate_questions (fixture_page_request ''2'') [fixture_question 1 ''abc'' 1] 1 = []"
    by (simp add: paginate_questions_from_one fixture_pages)
  have cats: "category_rows fixture_db = [\<lparr>c_id = 1, c_type = ''Science''\<rparr>, \<lparr>c_id = 2, c_type = ''Art''\<rparr>]"
    by (simp add: fixture_db_def)
  show ?thesis
    using retrieve_questions_by_selected_category_outcome
        [where request = "fixture_body_request PNone" and category_id = 9 and db = fixture_db]
      retrieve_questions_by_selected_category_outcome
        [where request = "fixture_body_request PNone" and category_id = 1 and db = fixture_db
           and cat = "\<lparr>c_id = 1, c_type = ''Science''\<rparr>"]
      retrieve_questions_by_selected_category_outcome
        [where request = "fixture_page_request ''2''" and category_id = 1 and db = fixture_db
           and cat = "\<lparr>c_id = 1, c_type = ''Science''\<rparr>"]
    by (simp add: Let_def rows first second cats)
qed

section \<open>The page returned after creating a question\<close>

lemma create_question_success:
  assumes body: "get_json request = PDict body"
    and search: "\<not> truthy (dict_get body (PStr ''searchTerm'') PNone)"
    and present: "dict_get body (PStr ''question'') PNone \<noteq> PNone"
      "dict_get body (PStr ''answer'') PNone \<noteq> PNone"
      "dict_get body (PStr ''category'') PNone \<noteq> PNone"
      "dict_get body (PStr ''difficulty'') PNone \<noteq> PNone"
    and inserted: "question_insert (dict_get body (PStr ''question'') PNone)
      (dict_get body (PStr ''answer'') PNone) (dict_get body (PStr ''category'') PNone)
      (dict_get body (PStr ''difficulty'') PNone) db = Inr (q, db')"
  shows "create_search_question py_str request db =
     (Inr (PDict [(PStr ''success'', PBool True),
                  (PStr ''created'', PInt (q_id q)),
                  (PStr ''questions'',
                     PList (paginate_questions request (order_by_id (question_rows db'))
                              (ceil_div10 (length (question_rows db'))))),
                  (PStr ''total_questions'', PInt (int (length (question_rows db'))))]),
      db')"
proof -
  have "create_question_body request body db =
     Inr (PDict [(PStr ''success'', PBool True),
                  (PStr ''created'', PInt (q_id q)),
                  (PStr ''questions'',
                     PList (paginate_questions request (order_by_id (question_rows db'))
                              (ceil_div10 (length (question_rows db'))))),
                  (PStr ''total_questions'', PInt (int (length (question_rows db'))))], db')"
    using present inserted
    by (simp add: create_question_body_def Let_def and_then_simps length_order_by_id)
  then show ?thesis
    by (simp add: create_search_question_create_branch [OF body search])
qed

lemma question_insert_stores:
  assumes "question_insert new_question new_answer new_category new_difficulty db = Inr (q, db')"
  shows "question_rows db' = question_rows db @ [q]"
    and "length (question_rows db') = length (question_rows db) + 1"
    and "q_id q = next_id db"
    and "category_rows db' = category_rows db"
  using assms
  by (auto simp: question_insert_def and_then_def Let_def split: sum.splits)

lemma paginate_questions_last_page:
  assumes "map_of (args request) ''page'' = None" "selection \<noteq> []"
  shows "paginate_questions request selection (ceil_div10 (length selection))
     = drop (10 * (nat (ceil_div10 (length selection)) - 1)) (map format_question selection)"
proof -
  let ?k = "ceil_div10 (length selection)"
  from assms(1) have page: "args_get (args request) ''page'' ?k py_int = ?k"
    by (simp add: args_get_def)
  from assms(2) have "1 \<le> ?k"
    by (cases selection) (simp_all add: ceil_div10_def)
  with page have "paginate_questions request selection ?k
      = take 10 (drop (nat ((?k - 1) * 10)) (map format_question selection))"
    using paginate_questions_from_one [of request ?k selection] by simp
  moreover have "nat ((?k - 1) * 10) = 10 * (nat ?k - 1)"
    using \<open>1 \<le> ?k\<close> by (simp add: ceil_div10_def)
  moreover have "length selection \<le> 10 * (nat ?k - 1) + 10"
    using \<open>1 \<le> ?k\<close> by (simp add: ceil_div10_def)
  ultimately show ?thesis
    by simp
qed

text \<open>
  C4. A creating \<^verbatim>\<open>POST /questions\<close> with all four fields and a successful insert
  stores the record, counts one question more and reports the new id and the new total
  (\<open>create_question_success\<close>, \<open>question_insert_stores\<close>). The returned list is the
  last page, \<open>ceil(total/10)\<close>, only when the request has no \<open>page\<close> parameter that
  reads as an integer (\<open>paginate_questions_last_page\<close>): the last page number is handed
  to \<^verbatim>\<open>paginate_questions\<close> as the default of its lookup in the query string, so a
  \<open>page\<close> parameter of the request takes its place. Evaluated for
  \<^verbatim>\<open>POST /questions?page=2\<close> on the sample storage: three questions after the insert,
  last page 1, which is not empty, and the response lists no question at all.
\<close>

theorem create_question_page_parameter_wins:
  "create_search_question (\<lambda>v. []) \<lparr>args = [(''page'', ''2'')], get_json = PDict fixture_new_question\<rparr>
      fixture_db
     = (Inr (PDict [(PStr ''success'', PBool True),
                    (PStr ''created'', PInt 3),
                    (PStr ''questions'', PList []),
                    (PStr ''total_questions'', PInt 3)]),
        fixture_db
          \<lparr>question_rows := [fixture_question 1 ''abc'' 1, fixture_question 2 ''Who?'' 2,
             \<lparr>q_id = 3, q_question = ''What is the best programming language'',
               q_answer = ''python'', q_category = 1, q_difficulty = 1\<rparr>],
           next_id := 4\<rparr>)
   \<and> ceil_div10 3 = 1
   \<and> take 10 (drop (nat ((ceil_div10 3 - 1) * 10))
        (map format_question [fixture_question 1 ''abc'' 1, fixture_question 2 ''Who?'' 2,
             \<lparr>q_id = 3, q_question = ''What is the best programming language'',
               q_answer = ''python'', q_category = 1, q_difficulty = 1\<rparr>]))
       \<noteq> []"
  by (simp add: create_search_question_def create_question_body_def dict_get_def question_insert_def
      fixture_new_question_def sql_text_def sql_column_int_def sql_int_def in_int32_def py_int_def
      max_str_digits_def read_int_def strip_def is_space_def parse_unsigned_def digit_of_def
      and_then_def ceil_div10_def order_by_id_def fixture_db_def fixture_question_def
      paginate_questions_def args_get_def QUESTIONS_PER_PAGE_def py_slice_def slice_bound_def
      Let_def)

section \<open>Searching questions\<close>

lemma like_match_any: "like_match ''%'' t"
  by (induction t) simp_all

lemma like_match_literal:
  assumes "\<forall>c \<in> set p. c \<noteq> CHR ''%'' \<and> c \<noteq> CHR ''_'' \<and> c \<noteq> CHR 0x5C"
  shows "like_match (p @ ''%'') t \<longleftrightarrow> prefix p t"
  using assms
proof (induction p arbitrary: t)
  case Nil
  have "like_match ''%'' t"
    by (rule like_match_any)
  then show ?case
    by (simp del: like_match.simps)
next
  case (Cons c p)
  then show ?case
    by (cases t) auto
qed

lemma like_match_percent:
  "like_match (CHR ''%'' # q) t \<longleftrightarrow> (\<exists>k \<le> length t. like_match q (drop k t))"
proof (induction t)
  case Nil
  show ?case by simp
next
  case (Cons c cs)
  have "(\<exists>k \<le> length (c # cs). like_match q (drop k (c # cs)))
      \<longleftrightarrow> like_match q (c # cs) \<or> (\<exists>k \<le> length cs. like_match q (drop k cs))"
  proof
    assume "\<exists>k \<le> length (c # cs). like_match q (drop k (c # cs))"
    then obtain k where k: "k \<le> length (c # cs)" "like_match q (drop k (c # cs))"
      by blast
    show "like_match q (c # cs) \<or> (\<exists>k \<le> length cs. like_match q (drop k cs))"
    proof (cases k)
      case 0
      with k show ?thesis by simp
    next
      case (Suc j)
      with k have "j \<le> length cs" "like_match q (drop j cs)"
        by simp_all
      then show ?thesis by blast
    qed
  next
    assume "like_match q (c # cs) \<or> (\<exists>k \<le> length cs. like_match q (drop k cs))"
    then show "\<exists>k \<le> length (c # cs). like_match q (drop k (c # cs))"
    proof
      assume "like_match q (c # cs)"
      then have "0 \<le> length (c # cs) \<and> like_match q (drop 0 (c # cs))"
        by simp
      then show ?thesis by blast
    next
      assume "\<exists>k \<le> length cs. like_match q (drop k cs)"
      then obtain k where "k \<le> length cs" "like_match q (drop k cs)"
        by blast
      then have "Suc k \<le> length (c # cs) \<and> like_match q (drop (Suc k) (c # cs))"
        by simp
      then show ?thesis by blast
    qed
  qed
  with Cons show ?case by simp
qed

lemma sublist_drop_prefix:
  "sublist p t \<longleftrightarrow> (\<exists>k \<le> length t. prefix p (drop k t))"
proof
  assume "sublist p t"
  then obtain ps ss where "t = ps @ p @ ss"
    by (auto simp: sublist_def)
  then have "length ps \<le> length t \<and> prefix p (drop (length ps) t)"
    by simp
  then show "\<exists>k \<le> length t. prefix p (drop k t)"
    by blast
next
  assume "\<exists>k \<le> length t. prefix p (drop k t)"
  then obtain k ss where "drop k t = p @ ss"
    by (auto simp: prefix_def)
  then have "t = take k t @ p @ ss"
    by (metis append_take_drop_id)
  then show "sublist p t"
    by (auto simp: sublist_def)
qed

lemma like_match_contains:
  assumes "\<forall>c \<in> set p. c \<noteq> CHR ''%'' \<and> c \<noteq> CHR ''_'' \<and> c \<noteq> CHR 0x5C"
  shows "like_match (CHR ''%'' # p @ ''%'') t \<longleftrightarrow> sublist p t"
  by (simp only: like_match_percent like_match_literal [OF assms] sublist_drop_prefix)

lemma lower_keeps_special:
  "lower c = CHR ''%'' \<longleftrightarrow> c = CHR ''%''"
  "lower c = CHR ''_'' \<longleftrightarrow> c = CHR ''_''"
  "lower c = CHR 0x5C \<longleftrightarrow> c = CHR 0x5C"
proof -
  have shifted: "char_of (of_char c + (32::nat)) \<noteq> d"
    if "65 \<le> (of_char c :: nat)" "(of_char c :: nat) \<le> 90" "(of_char d :: nat) < 97" for d
  proof
    assume "char_of (of_char c + (32::nat)) = d"
    then have "(of_char (char_of (of_char c + (32::nat)) :: char) :: nat) = of_char d"
      by simp
    with that show False
      by (simp add: of_char_of)
  qed
  show "lower c = CHR ''%'' \<longleftrightarrow> c = CHR ''%''"
    "lower c = CHR ''_'' \<longleftrightarrow> c = CHR ''_''"
    "lower c = CHR 0x5C \<longleftrightarrow> c = CHR 0x5C"
    using shifted [of "CHR ''%''"] shifted [of "CHR ''_''"] shifted [of "CHR 0x5C"]
    by (auto simp: lower_def Let_def)
qed


lemma ilike_contains:
  assumes "\<forall>c \<in> set s. c \<noteq> CHR ''%'' \<and> c \<noteq> CHR ''_'' \<and> c \<noteq> CHR 0x5C"
  shows "ilike txt (''%'' @ s @ ''%'') \<longleftrightarrow> sublist (map lower s) (map lower txt)"
proof -
  from assms have "\<forall>c \<in> set (map lower s). c \<noteq> CHR ''%'' \<and> c \<noteq> CHR ''_'' \<and> c \<noteq> CHR 0x5C"
    by (simp add: lower_keeps_special)
  from like_match_contains [OF this, of "map lower txt"]
  have "like_match (CHR ''%'' # map lower s @ ''%'') (map lower txt)
      \<longleftrightarrow> sublist (map lower s) (map lower txt)" .
  moreover have "lower CHR ''%'' = CHR ''%''"
    by (simp add: lower_keeps_special)
  ultimately show ?thesis
    by (simp add: ilike_def del: like_match.simps)
qed

lemma create_search_question_search_branch:
  assumes "get_json request = PDict body"
    and "dict_get body (PStr ''searchTerm'') PNone = PStr s"
    and "s \<noteq> []"
  shows "create_search_question py_str request db =
     (let selection = filter (\<lambda>q. ilike (q_question q) (''%'' @ s @ ''%''))
                        (order_by_id (question_rows db))
      in if selection = [] then (Inl (Abort 404), db)
         else (Inr (PDict [(PStr ''success'', PBool True),
                           (PStr ''questions'', PList (paginate_questions request selection 1)),
                           (PStr ''total_questions'', PInt (int (length selection)))]),
               db))"
  using assms
  by (simp add: create_search_question_def format_pattern_def Let_def abort_def)

lemma search_term_without_wildcards:
  assumes "get_json request = PDict body"
    and "dict_get body (PStr ''searchTerm'') PNone = PStr s"
    and "s \<noteq> []"
    and "\<forall>c \<in> set s. c \<noteq> CHR ''%'' \<and> c \<noteq> CHR ''_'' \<and> c \<noteq> CHR 0x5C"
  shows "create_search_question py_str request db =
     (let selection = filter (\<lambda>q. sublist (map lower s) (map lower (q_question q)))
                        (order_by_id (question_rows db))
      in if selection = [] then (Inl (Abort 404), db)
         else (Inr (PDict [(PStr ''success'', PBool True),
                           (PStr ''questions'', PList (paginate_questions request selection 1)),
                           (PStr ''total_questions'', PInt (int (length selection)))]),
               db))"
  by (simp only: create_search_question_search_branch [OF assms(1-3)] ilike_contains [OF assms(4)])

text \<open>
  C5. A \<^verbatim>\<open>POST /questions\<close> whose search term is a non-empty string: the questions are
  matched by the pattern operator of storage against \<open>%\<close>, the term, \<open>%\<close>. For a term
  without \<open>%\<close>, \<open>_\<close> and backslash the matches are exactly the questions whose text
  contains the term without regard to case; the response holds their page and their
  number, and the handler aborts with 404 when there is none
  (\<open>search_term_without_wildcards\<close>). The term is not escaped, though: in \<open>a_c\<close> the
  underscore stands for any character, so on the sample storage the search for \<open>a_c\<close>
  succeeds and returns the question \<open>abc\<close>, while no stored question contains \<open>a_c\<close>.
\<close>

theorem search_term_wildcard_matches:
  "create_search_question (\<lambda>v. [])
     (fixture_body_request (PDict [(PStr ''searchTerm'', PStr ''a_c'')])) fixture_db
     = (Inr (PDict [(PStr ''success'', PBool True),
                    (PStr ''questions'', PList [format_question (fixture_question 1 ''abc'' 1)]),
                    (PStr ''total_questions'', PInt 1)]),
        fixture_db)
   \<and> \<not> sublist (map lower ''a_c'') (map lower (q_question (fixture_question 1 ''abc'' 1)))
   \<and> filter (\<lambda>q. sublist (map lower ''a_c'') (map lower (q_question q)))
        (order_by_id (question_rows fixture_db)) = []"
  by (simp add: create_search_question_def dict_get_def format_pattern_def ilike_def lower_def
      order_by_id_def fixture_db_def fixture_question_def fixture_body_request_def
      paginate_questions_def args_get_def QUESTIONS_PER_PAGE_def py_slice_def slice_bound_def
      Let_def sublist_Cons_right prefix_Cons)

end
